theory Spec2Isabelle
  imports Complex_Main
begin

section \<open>Python string operations used by the pipeline\<close>

text \<open>
  Strings are lists of characters. Only the operations the source calls are modelled:
  \<^verbatim>\<open>str.strip()\<close>, \<^verbatim>\<open>str.split(sep)\<close>, \<^verbatim>\<open>str.startswith\<close>, the substring test
  \<^verbatim>\<open>p in s\<close>, \<^verbatim>\<open>str.replace\<close>, \<^verbatim>\<open>sep.join\<close> and the decimal rendering of an
  integer inside an f-string. Whitespace is Python's whitespace among the ASCII code points.
\<close>

definition is_space :: "char \<Rightarrow> bool" where
  "is_space c \<longleftrightarrow> c \<in> {CHR 0x09, CHR 0x0A, CHR 0x0B, CHR 0x0C, CHR 0x0D,
                      CHR 0x1C, CHR 0x1D, CHR 0x1E, CHR 0x1F, CHR 0x20}"

definition lstrip :: "string \<Rightarrow> string" where
  "lstrip s = dropWhile is_space s"

definition rstrip :: "string \<Rightarrow> string" where
  "rstrip s = rev (dropWhile is_space (rev s))"

definition strip :: "string \<Rightarrow> string" where
  "strip s = rstrip (lstrip s)"

fun split_on :: "char \<Rightarrow> string \<Rightarrow> string list" where
  "split_on c [] = [[]]"
| "split_on c (x # xs) =
     (if x = c then [] # split_on c xs
      else (case split_on c xs of [] \<Rightarrow> [[x]] | l # ls \<Rightarrow> (x # l) # ls))"

definition startswith :: "string \<Rightarrow> string \<Rightarrow> bool" where
  "startswith s p \<longleftrightarrow> take (length p) s = p"

fun contains :: "string \<Rightarrow> string \<Rightarrow> bool" where
  "contains p [] \<longleftrightarrow> p = []"
| "contains p (c # cs) \<longleftrightarrow> startswith (c # cs) p \<or> contains p cs"

text \<open>\<^verbatim>\<open>s.replace(old, new)\<close> for a non-empty \<open>old\<close>: occurrences are replaced from the
  left, without overlap.\<close>

fun str_replace :: "string \<Rightarrow> string \<Rightarrow> string \<Rightarrow> string" where
  "str_replace old new [] = []"
| "str_replace old new (c # cs) =
     (if old \<noteq> [] \<and> startswith (c # cs) old
      then new @ str_replace old new (drop (length old - 1) cs)
      else c # str_replace old new cs)"

fun str_join :: "string \<Rightarrow> string list \<Rightarrow> string" where
  "str_join sep [] = []"
| "str_join sep [x] = x"
| "str_join sep (x # y # ys) = x @ sep @ str_join sep (y # ys)"

definition digit_char :: "nat \<Rightarrow> char" where
  "digit_char d = ''0123456789'' ! d"

fun str_nat :: "nat \<Rightarrow> string" where
  "str_nat n = (if n < 10 then [digit_char n] else str_nat (n div 10) @ [digit_char (n mod 10)])"

declare str_nat.simps [simp del]

definition str_int :: "int \<Rightarrow> string" where
  "str_int i = (if i < 0 then CHR ''-'' # str_nat (nat (- i)) else str_nat (nat i))"

text \<open>Python's slice \<^verbatim>\<open>xs[:n]\<close>: a negative \<open>n\<close> counts from the end.\<close>

definition slice_to :: "'a list \<Rightarrow> int \<Rightarrow> 'a list" where
  "slice_to xs n = (if 0 \<le> n then take (nat n) xs else take (length xs - nat (- n)) xs)"

section \<open>Data model\<close>

text \<open>
  A reranked entry is the dictionary \<^verbatim>\<open>{"index", "document", "relevance_score"}\<close> built in
  \<^verbatim>\<open>VoyageReranker.rerank\<close>. Scores are Python floats in the source; they are modelled
  by exact rationals, so \<^verbatim>\<open>1.0 - (i * 0.1)\<close> is the rational \<open>1 - i / 10\<close>.
  A Python \<^verbatim>\<open>dict\<close> keeps insertion order and is modelled by an association list.
\<close>

record doc_info =
  index :: int
  document :: string
  relevance_score :: rat

type_synonym 'v dict = "(string \<times> 'v) list"

text \<open>\<^verbatim>\<open>d[k] = v\<close>: an existing key keeps its position, a new key goes to the end.\<close>

fun dict_set :: "string \<Rightarrow> 'v \<Rightarrow> 'v dict \<Rightarrow> 'v dict" where
  "dict_set k v [] = [(k, v)]"
| "dict_set k v ((k', v') # d) = (if k' = k then (k, v) # d else (k', v') # dict_set k v d)"

section \<open>\<^verbatim>\<open>LLMUtils.prepare_context\<close> (rag_pipeline/llm_utils.py)\<close>

record ctx_state =
  all_docs :: "string list"
  seen_docs :: "string set"
  chunk_counter :: nat

definition chunk_label :: "nat \<Rightarrow> string \<Rightarrow> string" where
  "chunk_label n doc_content = ''[Chunk '' @ str_nat n @ '']:'' @ [CHR 0x0A] @ doc_content"

definition ctx_init :: ctx_state where
  "ctx_init = \<lparr>all_docs = [], seen_docs = {}, chunk_counter = 1\<rparr>"

text \<open>The body of the inner loop after the \<^verbatim>\<open>break\<close> test.\<close>

definition add_doc :: "string \<Rightarrow> ctx_state \<Rightarrow> ctx_state" where
  "add_doc doc_content st =
     (if doc_content \<notin> seen_docs st
      then \<lparr>all_docs = all_docs st @ [chunk_label (chunk_counter st) doc_content],
            seen_docs = insert doc_content (seen_docs st),
            chunk_counter = chunk_counter st + 1\<rparr>
      else st)"

text \<open>\<^verbatim>\<open>for i, doc_info in enumerate(results): if i >= top_k: break; ...\<close>\<close>

fun context_inner :: "int \<Rightarrow> int \<Rightarrow> doc_info list \<Rightarrow> ctx_state \<Rightarrow> ctx_state" where
  "context_inner top_k i [] st = st"
| "context_inner top_k i (d # ds) st =
     (if i \<ge> top_k then st
      else context_inner top_k (i + 1) ds (add_doc (document d) st))"

text \<open>\<^verbatim>\<open>for query, results in reranked_results.items(): ...\<close>\<close>

fun context_outer :: "int \<Rightarrow> doc_info list dict \<Rightarrow> ctx_state \<Rightarrow> ctx_state" where
  "context_outer top_k [] st = st"
| "context_outer top_k ((query, results) # rest) st =
     context_outer top_k rest (context_inner top_k 0 results st)"

definition context_separator :: string where
  "context_separator = [CHR 0x0A, CHR 0x0A] @ ''---'' @ [CHR 0x0A, CHR 0x0A]"

text \<open>The list \<^verbatim>\<open>all_docs\<close> of labelled blocks when the loops are done, and the string
  returned, which joins them.\<close>

definition context_blocks :: "doc_info list dict \<Rightarrow> int \<Rightarrow> string list" where
  "context_blocks reranked_results top_k = all_docs (context_outer top_k reranked_results ctx_init)"

definition prepare_context :: "doc_info list dict \<Rightarrow> int \<Rightarrow> string" where
  "prepare_context reranked_results top_k =
     str_join context_separator (context_blocks reranked_results top_k)"


text \<open>Derived views of the input, used to state the properties of the blocks: the texts the
  loops visit, in order; the first occurrences of a sequence; sequential labelling.\<close>

definition visited :: "doc_info list dict \<Rightarrow> int \<Rightarrow> string list" where
  "visited reranked_results top_k =
     concat (map (\<lambda>(query, results). map document (take (nat top_k) results)) reranked_results)"

fun first_seen :: "'a set \<Rightarrow> 'a list \<Rightarrow> 'a list" where
  "first_seen S [] = []"
| "first_seen S (x # xs) = (if x \<in> S then first_seen S xs else x # first_seen (insert x S) xs)"

fun label_from :: "nat \<Rightarrow> string list \<Rightarrow> string list" where
  "label_from n [] = []"
| "label_from n (t # ts) = chunk_label n t # label_from (Suc n) ts"



section \<open>Exceptions and external services\<close>

text \<open>
  Every \<^verbatim>\<open>raise\<close> of the source and every exception of an external call is a value.
  The generation service is the call \<^verbatim>\<open>client.chat.completions.create\<close> followed by
  \<^verbatim>\<open>response.choices[0].message.content\<close>: a function of the system and the user message
  that returns the content or raises. The rerank service is \<^verbatim>\<open>client.rerank\<close>: a function
  of the query, the documents and \<^verbatim>\<open>top_k\<close> that returns \<^verbatim>\<open>reranking.results\<close>
  or raises. An absent credential is the client \<open>None\<close>.
\<close>

datatype error = ValueError string | IndexError | ServiceError string

type_synonym chat_client = "string \<Rightarrow> string \<Rightarrow> error + string"

record rerank_result =
  result_index :: int
  result_relevance_score :: rat

type_synonym voyage_client = "string \<Rightarrow> string list \<Rightarrow> int option \<Rightarrow> error + rerank_result list"

text \<open>\<^verbatim>\<open>xs[i]\<close> with Python's negative indices and \<^verbatim>\<open>IndexError\<close>.\<close>

definition py_index :: "'a list \<Rightarrow> int \<Rightarrow> error + 'a" where
  "py_index xs i =
     (if 0 \<le> i \<and> i < int (length xs) then Inr (xs ! nat i)
      else if i < 0 \<and> - int (length xs) \<le> i then Inr (xs ! nat (int (length xs) + i))
      else Inl IndexError)"

section \<open>\<^verbatim>\<open>VoyageReranker\<close> (rag_pipeline/reranker.py, rag_with_reranker/reranker.py)\<close>

text \<open>The list comprehension of the fallback:
  \<^verbatim>\<open>[{"index": i, "document": doc, "relevance_score": 1.0 - (i * 0.1)} for i, doc in enumerate(documents)]\<close>\<close>

definition original_order :: "string list \<Rightarrow> doc_info list" where
  "original_order documents =
     map (\<lambda>(i, doc). \<lparr>index = int i, document = doc, relevance_score = 1 - of_nat i * (1 / 10)\<rparr>)
         (enumerate 0 documents)"

text \<open>The loop over \<^verbatim>\<open>reranking.results\<close>; \<^verbatim>\<open>documents[result.index]\<close> may raise.\<close>

fun convert_results :: "string list \<Rightarrow> rerank_result list \<Rightarrow> error + doc_info list" where
  "convert_results documents [] = Inr []"
| "convert_results documents (result # rest) =
     (case py_index documents (result_index result) of
        Inl e \<Rightarrow> Inl e
      | Inr doc \<Rightarrow>
          (case convert_results documents rest of
             Inl e \<Rightarrow> Inl e
           | Inr reranked_results \<Rightarrow>
               Inr (\<lparr>index = result_index result, document = doc,
                     relevance_score = result_relevance_score result\<rparr> # reranked_results)))"

text \<open>Both packages have the same \<^verbatim>\<open>rerank\<close>: the \<^verbatim>\<open>try\<close> block covers the service call and
  the conversion loop, and \<^verbatim>\<open>except Exception\<close> returns the fallback list.\<close>

definition rerank :: "voyage_client option \<Rightarrow> string \<Rightarrow> string list \<Rightarrow> int option \<Rightarrow> doc_info list" where
  "rerank client query documents top_k =
     (case client of
        None \<Rightarrow> original_order documents
      | Some service \<Rightarrow>
          (case service query documents top_k of
             Inl e \<Rightarrow> original_order documents
           | Inr results \<Rightarrow>
               (case convert_results documents results of
                  Inl e \<Rightarrow> original_order documents
                | Inr reranked_results \<Rightarrow> reranked_results)))"

fun rerank_for_multiple_queries ::
  "voyage_client option \<Rightarrow> string list dict \<Rightarrow> int option \<Rightarrow> doc_info list dict \<Rightarrow> doc_info list dict" where
  "rerank_for_multiple_queries client [] top_k results = results"
| "rerank_for_multiple_queries client ((query, documents) # rest) top_k results =
     rerank_for_multiple_queries client rest top_k
       (dict_set query (rerank client query documents top_k) results)"

section \<open>\<^verbatim>\<open>LLMUtils\<close> (rag_pipeline/llm_utils.py)\<close>

definition NUM_SUBQUERIES :: int where "NUM_SUBQUERIES = 3"
definition TOP_N_INITIAL :: int where "TOP_N_INITIAL = 10"
definition TOP_K_RERANKED :: int where "TOP_K_RERANKED = 5"

definition extract_rationales :: "chat_client option \<Rightarrow> string \<Rightarrow> error + string" where
  "extract_rationales client query =
     (case client of
        None \<Rightarrow> Inr query
      | Some chat \<Rightarrow>
          (case chat (''Extract the key rationales or search intents from the given query. '' @
                      ''Identify the core information needs.'')
                     (''Query: '' @ query) of
             Inl e \<Rightarrow> Inl e
           | Inr content \<Rightarrow> Inr (strip content)))"

text \<open>The test of the first-tier parse on a stripped line:
  \<^verbatim>\<open>line and (line.startswith('-') or line.startswith('*') or ':' in line or
            any(str(i) in line[:2] for i in range(1, 10)))\<close>\<close>

definition looks_like_item :: "string \<Rightarrow> bool" where
  "looks_like_item line \<longleftrightarrow>
     line \<noteq> [] \<and>
     (startswith line ''-'' \<or> startswith line ''*'' \<or> CHR '':'' \<in> set line \<or>
      list_ex (\<lambda>i. contains (str_nat i) (take 2 line)) [1..<10])"

text \<open>\<^verbatim>\<open>line.split(':', 1)\<close> for a line that has a colon: the text before the first colon
  and the text after it.\<close>

definition split_once :: "char \<Rightarrow> string \<Rightarrow> string list" where
  "split_once c s = [takeWhile (\<lambda>x. x \<noteq> c) s, tl (dropWhile (\<lambda>x. x \<noteq> c) s)]"

text \<open>\<^verbatim>\<open>parts = line.split(':', 1) if ':' in line else [line]; query = parts[-1].strip()\<close>\<close>

definition extract_query :: "string \<Rightarrow> string" where
  "extract_query line =
     (let parts = (if CHR '':'' \<in> set line then split_once CHR '':'' line else [line])
      in strip (last parts))"

fun parse_lines :: "string list \<Rightarrow> string list \<Rightarrow> string list" where
  "parse_lines [] subqueries = subqueries"
| "parse_lines (l # ls) subqueries =
     (let line = strip l in
      if looks_like_item line then
        (let query = extract_query line in
         if query \<noteq> [] \<and> query \<notin> set subqueries
         then parse_lines ls (subqueries @ [query])
         else parse_lines ls subqueries)
      else parse_lines ls subqueries)"

definition parse_subqueries :: "string \<Rightarrow> string list" where
  "parse_subqueries subqueries_text = parse_lines (split_on CHR 0x0A subqueries_text) []"

text \<open>The parse of the retry:
  \<^verbatim>\<open>[line.replace('Query:', '').strip() for line in subqueries_text.split('\n') if 'Query:' in line]\<close>\<close>

definition parse_retry :: "string \<Rightarrow> string list" where
  "parse_retry subqueries_text =
     map (\<lambda>line. strip (str_replace ''Query:'' [] line))
         (filter (contains ''Query:'') (split_on CHR 0x0A subqueries_text))"

definition subqueries_prompt :: "int \<Rightarrow> string" where
  "subqueries_prompt num_queries =
     ''Based on these rationales, generate '' @ str_int num_queries @ '' different search '' @
     ''queries that would help retrieve relevant information.''"

definition retry_prompt :: "int \<Rightarrow> string" where
  "retry_prompt num_queries =
     ''Generate '' @ str_int num_queries @ '' search queries based on these rationales. '' @
     ''Format each query on a new line starting with '' @ [CHR 0x27] @ ''Query: '' @ [CHR 0x27]"

definition generate_subqueries :: "chat_client option \<Rightarrow> string \<Rightarrow> int \<Rightarrow> error + string list" where
  "generate_subqueries client rationales num_queries =
     (case client of
        None \<Rightarrow> Inr [rationales]
      | Some chat \<Rightarrow>
          (case chat (subqueries_prompt num_queries) (''Rationales: '' @ rationales) of
             Inl e \<Rightarrow> Inl e
           | Inr content \<Rightarrow>
               (let subqueries = parse_subqueries (strip content) in
                if subqueries = [] \<or> int (length subqueries) < num_queries then
                  (case chat (retry_prompt num_queries) (''Rationales: '' @ rationales) of
                     Inl e \<Rightarrow> Inl e
                   | Inr content' \<Rightarrow> Inr (slice_to (parse_retry (strip content')) num_queries))
                else Inr (slice_to subqueries num_queries))))"

definition no_key_response :: string where
  "no_key_response =
     ''Error: OPENAI_API_KEY not set. Please set the environment variable to generate responses.''"

definition system_prompt :: string where
  "system_prompt =
     ''You are a highly precise assistant that only answers based on the '' @
     ''provided context.'' @
     [CHR 0x0A, CHR 0x0A] @
     ''STRICT RULES:'' @
     [CHR 0x0A] @
     ''1. ONLY use information directly stated in the context. Do not '' @
     ''introduce external information even if you believe it'' @
     [CHR 0x27] @
     ''s factual.'' @
     [CHR 0x0A] @
     ''2. If the context doesn'' @
     [CHR 0x27] @
     ''t contain enough information to fully answer the question, state '' @
     ''clearly: '' @
     [CHR 0x22] @
     ''The provided documents do not contain sufficient information to '' @
     ''answer this question.'' @
     [CHR 0x22, CHR 0x0A] @
     ''3. NEVER invent details, tools, methods, names, dates, or statistics '' @
     ''that aren'' @
     [CHR 0x27] @
     ''t explicitly mentioned in the context.'' @
     [CHR 0x0A] @
     ''4. For each piece of information in your answer, identify in your '' @
     ''thinking which part of the context it came from.'' @
     [CHR 0x0A] @
     ''5. Cite information using [Chunk X] notation where X corresponds to '' @
     ''the chunk where information appears.'' @
     [CHR 0x0A] @
     ''6. If information appears in multiple chunks, include all relevant '' @
     ''chunk citations.'' @
     [CHR 0x0A, CHR 0x0A] @
     ''Format your response as follows:'' @
     [CHR 0x0A] @
     ''[Internal thinking: Analyze what information is available in the '' @
     ''context and which parts directly address the question. Include chunk '' @
     ''references for each fact.]'' @
     [CHR 0x0A, CHR 0x0A] @
     ''[Final answer: Write your final answer using ONLY information from '' @
     ''the context, with appropriate citations to chunks.]''"

definition generate_response :: "chat_client option \<Rightarrow> string \<Rightarrow> string \<Rightarrow> error + string" where
  "generate_response client query context =
     (case client of
        None \<Rightarrow> Inr no_key_response
      | Some chat \<Rightarrow>
          (case chat system_prompt
                     (''Context (divided into chunks):'' @ [CHR 0x0A] @ context @
                      [CHR 0x0A, CHR 0x0A] @ ''Question: '' @ query @ [CHR 0x0A, CHR 0x0A] @
                      ''Remember, only use information explicitly stated in the context. '' @
                      ''If the answer isn'' @ [CHR 0x27] @ ''t in the context, say so clearly.'') of
             Inl e \<Rightarrow> Inl e
           | Inr content \<Rightarrow> Inr (strip content)))"

section \<open>\<^verbatim>\<open>VectorStore\<close> (rag_pipeline/vector_store.py)\<close>

text \<open>
  A langchain \<^verbatim>\<open>Document\<close> carries its text and the \<^verbatim>\<open>source\<close> entry of its metadata.
  A FAISS index is known only by its \<^verbatim>\<open>similarity_search(query, k)\<close>, which is taken to
  return a list. The directory \<^verbatim>\<open>FAISS_INDEX_PATH\<close> is absent, or holds an index that
  \<^verbatim>\<open>FAISS.load_local\<close> returns, or one on which it raises. \<^verbatim>\<open>shutil.rmtree\<close>,
  \<^verbatim>\<open>FAISS.from_documents\<close> and \<^verbatim>\<open>save_local\<close> are taken to succeed. The calls made to
  the external collaborators are logged in the order they are made.
\<close>

record Document =
  page_content :: string
  metadata_source :: "string option"

type_synonym faiss_index = "string \<Rightarrow> int \<Rightarrow> Document list"

datatype persisted_index = Loadable faiss_index | Corrupt

datatype call =
    Rmtree
  | Load_local
  | Process_file string string
  | Process_directory string
  | From_documents "Document list"
  | Save_local

record vector_store =
  vs_index :: "faiss_index option"
  fs_index :: "persisted_index option"
  calls :: "call list"

definition create_index :: "(Document list \<Rightarrow> faiss_index) \<Rightarrow> Document list \<Rightarrow> vector_store \<Rightarrow> vector_store" where
  "create_index from_documents documents vs =
     vs\<lparr>vs_index := Some (from_documents documents), calls := calls vs @ [From_documents documents]\<rparr>"

definition save_index :: "vector_store \<Rightarrow> error + vector_store" where
  "save_index vs =
     (case vs_index vs of
        None \<Rightarrow> Inl (ValueError ''No index to save. Create an index first.'')
      | Some idx \<Rightarrow> Inr (vs\<lparr>fs_index := Some (Loadable idx), calls := calls vs @ [Save_local]\<rparr>))"

definition load_index :: "vector_store \<Rightarrow> bool \<times> vector_store" where
  "load_index vs =
     (case fs_index vs of
        None \<Rightarrow> (False, vs)
      | Some Corrupt \<Rightarrow> (False, vs\<lparr>calls := calls vs @ [Load_local]\<rparr>)
      | Some (Loadable idx) \<Rightarrow> (True, vs\<lparr>vs_index := Some idx, calls := calls vs @ [Load_local]\<rparr>))"

definition search :: "faiss_index option \<Rightarrow> string \<Rightarrow> int \<Rightarrow> error + Document list" where
  "search idx query k =
     (case idx of
        None \<Rightarrow> Inl (ValueError ''No index to search. Create or load an index first.'')
      | Some similarity_search \<Rightarrow> Inr (similarity_search query k))"

fun search_for_multiple_queries ::
  "faiss_index option \<Rightarrow> string list \<Rightarrow> int \<Rightarrow> Document list dict \<Rightarrow> error + Document list dict" where
  "search_for_multiple_queries idx [] k results = Inr results"
| "search_for_multiple_queries idx (query # queries) k results =
     (case search idx query k of
        Inl e \<Rightarrow> Inl e
      | Inr documents \<Rightarrow> search_for_multiple_queries idx queries k (dict_set query documents results))"

section \<open>\<^verbatim>\<open>RDRagPipeline\<close> (rag_pipeline/pipeline.py)\<close>

text \<open>The collaborators of \<^verbatim>\<open>initialize\<close>: the document processor's two entry points, which
  return chunks or raise, \<^verbatim>\<open>FAISS.from_documents\<close>, and the configured \<^verbatim>\<open>DOCUMENTS_DIR\<close>.\<close>

record collaborators =
  process_file :: "string \<Rightarrow> string \<Rightarrow> error + Document list"
  process_directory :: "string \<Rightarrow> error + Document list"
  from_documents :: "Document list \<Rightarrow> faiss_index"
  DOCUMENTS_DIR :: string

record RDRagPipeline =
  vector_store :: vector_store
  llm_utils :: "chat_client option"
  reranker :: "voyage_client option"

definition rmtree :: "vector_store \<Rightarrow> vector_store" where
  "rmtree vs = vs\<lparr>fs_index := None, calls := calls vs @ [Rmtree]\<rparr>"

text \<open>The ingestion step: a single named file when \<^verbatim>\<open>file_name\<close> is given, the whole
  directory otherwise. The call is returned with its result, to be logged.\<close>

definition ingest :: "collaborators \<Rightarrow> string \<Rightarrow> string option \<Rightarrow> call \<times> (error + Document list)" where
  "ingest env dir file_name =
     (case file_name of
        None \<Rightarrow> (Process_directory dir, process_directory env dir)
      | Some f \<Rightarrow>
          if f \<noteq> [] then (Process_file dir f, process_file env dir f)
          else (Process_directory dir, process_directory env dir))"

definition initialize ::
  "collaborators \<Rightarrow> vector_store \<Rightarrow> string option \<Rightarrow> bool \<Rightarrow> string option \<Rightarrow> error + vector_store" where
  "initialize env vs documents_dir reinitialize file_name =
     (let dir = (case documents_dir of
                   None \<Rightarrow> DOCUMENTS_DIR env
                 | Some d \<Rightarrow> if d \<noteq> [] then d else DOCUMENTS_DIR env);
          vs1 = (if reinitialize \<and> fs_index vs \<noteq> None then rmtree vs else vs);
          (loaded, vs2) = load_index vs1
      in if \<not> loaded then
           (case ingest env dir file_name of
              (c, Inl e) \<Rightarrow> Inl e
            | (c, Inr documents) \<Rightarrow>
                (let vs3 = vs2\<lparr>calls := calls vs2 @ [c]\<rparr>
                 in if documents \<noteq> []
                    then save_index (create_index (from_documents env) documents vs3)
                    else Inr vs3))
         else Inr vs2)"

fun format_results_for_reranker :: "Document list dict \<Rightarrow> string list dict \<Rightarrow> string list dict" where
  "format_results_for_reranker [] formatted_results = formatted_results"
| "format_results_for_reranker ((query, docs) # rest) formatted_results =
     format_results_for_reranker rest (dict_set query (map page_content docs) formatted_results)"

text \<open>\<^verbatim>\<open>process_query\<close>; what it prints is not modelled.\<close>

definition process_query :: "RDRagPipeline \<Rightarrow> string \<Rightarrow> error + string" where
  "process_query self query =
     (case extract_rationales (llm_utils self) query of
        Inl e \<Rightarrow> Inl e
      | Inr rationales \<Rightarrow>
          (case generate_subqueries (llm_utils self) rationales NUM_SUBQUERIES of
             Inl e \<Rightarrow> Inl e
           | Inr subqueries \<Rightarrow>
               (case search_for_multiple_queries (vs_index (vector_store self)) subqueries
                       TOP_N_INITIAL [] of
                  Inl e \<Rightarrow> Inl e
                | Inr initial_results \<Rightarrow>
                    (let formatted_results = format_results_for_reranker initial_results [];
                         reranked_results =
                           rerank_for_multiple_queries (reranker self) formatted_results None [];
                         context = prepare_context reranked_results TOP_K_RERANKED
                     in generate_response (llm_utils self) query context))))"

section \<open>\<^verbatim>\<open>RAGWithRerankerPipeline\<close> (rag_with_reranker/pipeline.py)\<close>

record context_doc =
  cd_document :: string
  cd_source :: "string option"

text \<open>The loop that pairs each reranked entry with the source of
  \<^verbatim>\<open>original_docs[result["index"]]\<close>.\<close>

fun context_docs_of :: "Document list \<Rightarrow> doc_info list \<Rightarrow> error + context_doc list" where
  "context_docs_of original_docs [] = Inr []"
| "context_docs_of original_docs (result # rest) =
     (case py_index original_docs (index result) of
        Inl e \<Rightarrow> Inl e
      | Inr original_doc \<Rightarrow>
          (case context_docs_of original_docs rest of
             Inl e \<Rightarrow> Inl e
           | Inr context_docs \<Rightarrow>
               Inr (\<lparr>cd_document = document result, cd_source = metadata_source original_doc\<rparr>
                    # context_docs)))"

text \<open>The package's own \<^verbatim>\<open>LLMUtils.generate_response\<close> and \<^verbatim>\<open>TOP_K_RERANKED\<close> are parameters:
  rag_with_reranker/llm_utils.py and rag_with_reranker/config.py are not among the sources.\<close>

definition reranker_process_query ::
  "(string \<Rightarrow> context_doc list \<Rightarrow> error + string) \<Rightarrow> int \<Rightarrow> voyage_client option \<Rightarrow>
   Document list \<Rightarrow> string \<Rightarrow> error + string" where
  "reranker_process_query llm_generate_response top_k_reranked client all_chunks query =
     (if all_chunks = [] then
        Inr ''Error: No documents have been processed. Please initialize the pipeline.''
      else
        (let doc_texts = map page_content all_chunks;
             reranked_results = rerank client query doc_texts (Some top_k_reranked)
         in case context_docs_of all_chunks reranked_results of
              Inl e \<Rightarrow> Inl e
            | Inr context_docs \<Rightarrow> llm_generate_response query context_docs))"

section \<open>\<^verbatim>\<open>SimpleRAGPipeline\<close> (simple_rag/pipeline.py, simple_rag/llm_utils.py)\<close>

definition TOP_K :: int where "TOP_K = 5"
definition MAX_CONTEXT_TOKENS :: int where "MAX_CONTEXT_TOKENS = 14000"

text \<open>\<^verbatim>\<open>str.split()\<close> without a separator: the maximal runs of non-whitespace.\<close>

fun split_ws_from :: "string \<Rightarrow> string \<Rightarrow> string list" where
  "split_ws_from w [] = (if w = [] then [] else [w])"
| "split_ws_from w (c # cs) =
     (if is_space c then (if w = [] then split_ws_from [] cs else w # split_ws_from [] cs)
      else split_ws_from (w @ [c]) cs)"

definition split_ws :: "string \<Rightarrow> string list" where
  "split_ws s = split_ws_from [] s"

text \<open>\<^verbatim>\<open>f"Source: {doc.get('source', 'N/A')}\nContent: {doc['document']}\n\n"\<close>: both callers
  always set the key \<^verbatim>\<open>source\<close>, possibly to \<^verbatim>\<open>None\<close>, which an f-string renders as
  \<^verbatim>\<open>None\<close>.\<close>

definition render_context_doc :: "context_doc \<Rightarrow> string" where
  "render_context_doc doc =
     ''Source: '' @ (case cd_source doc of None \<Rightarrow> ''None'' | Some s \<Rightarrow> s) @ [CHR 0x0A] @
     ''Content: '' @ cd_document doc @ [CHR 0x0A, CHR 0x0A]"

definition simple_generate_response :: "chat_client option \<Rightarrow> string \<Rightarrow> context_doc list \<Rightarrow> error + string" where
  "simple_generate_response client query context_docs =
     (case client of
        None \<Rightarrow> Inr ''No OPENAI_API_KEY set. Cannot generate response.''
      | Some chat \<Rightarrow>
          (let context = concat (map render_context_doc context_docs);
               context' = (if int (length (split_ws context)) > MAX_CONTEXT_TOKENS
                           then str_join '' '' (slice_to (split_ws context) MAX_CONTEXT_TOKENS)
                           else context)
           in case chat ''You are a helpful assistant. Use the provided context to answer the query.''
                        (''Context:'' @ [CHR 0x0A] @ context' @ [CHR 0x0A, CHR 0x0A] @
                         ''Query: '' @ query) of
                Inl e \<Rightarrow> Inl e
              | Inr content \<Rightarrow> Inr (strip content)))"

text \<open>The package's \<^verbatim>\<open>VectorStore.search\<close> is a parameter: simple_rag/vector_store.py is not
  among the sources.\<close>

definition simple_process_query ::
  "(string \<Rightarrow> int \<Rightarrow> error + Document list) \<Rightarrow> chat_client option \<Rightarrow> string \<Rightarrow> error + string" where
  "simple_process_query vector_store_search client query =
     (case vector_store_search query TOP_K of
        Inl e \<Rightarrow> Inl e
      | Inr retrieved_docs \<Rightarrow>
          simple_generate_response client query
            (map (\<lambda>doc. \<lparr>cd_document = page_content doc, cd_source = metadata_source doc\<rparr>)
                 retrieved_docs))"

section \<open>Reference definitions and example services\<close>



definition repeating_chat :: chat_client where
  "repeating_chat system_content user_content = Inr (''Query: a'' @ [CHR 0x0A] @ ''Query: a'')"

definition silent_chat :: chat_client where
  "silent_chat system_content user_content = Inr []"

text \<open>An index that returns two chunks to every query; a corpus of one chunk and an empty
  corpus, with an index construction that returns the first \<open>k\<close> chunks; a stub for the
  reranker-only package's \<^verbatim>\<open>generate_response\<close>.\<close>

definition two_chunk_index :: faiss_index where
  "two_chunk_index query k =
     [\<lparr>page_content = ''A'', metadata_source = Some ''f.txt''\<rparr>,
      \<lparr>page_content = ''B'', metadata_source = Some ''f.txt''\<rparr>]"

definition first_k_index :: "Document list \<Rightarrow> faiss_index" where
  "first_k_index documents query k = take (nat k) documents"

definition one_chunk_corpus :: collaborators where
  "one_chunk_corpus =
     \<lparr>process_file = (\<lambda>dir f. Inr [\<lparr>page_content = ''A'', metadata_source = Some f\<rparr>]),
      process_directory = (\<lambda>dir. Inr [\<lparr>page_content = ''A'', metadata_source = Some ''f.txt''\<rparr>]),
      from_documents = first_k_index,
      DOCUMENTS_DIR = ''documents''\<rparr>"

definition empty_corpus :: collaborators where
  "empty_corpus =
     \<lparr>process_file = (\<lambda>dir f. Inr []),
      process_directory = (\<lambda>dir. Inr []),
      from_documents = first_k_index,
      DOCUMENTS_DIR = ''documents''\<rparr>"

definition stub_generate_response :: "string \<Rightarrow> context_doc list \<Rightarrow> error + string" where
  "stub_generate_response query context_docs = Inr ''answer''"

text \<open>Reranked results in which the text \<^verbatim>\<open>d1\<close> is first under one subquery and second
  under another.\<close>

definition shared_fragment_results :: "doc_info list dict" where
  "shared_fragment_results =
     [(''q1'', [\<lparr>index = 0, document = ''d1'', relevance_score = 1\<rparr>,
               \<lparr>index = 1, document = ''d2'', relevance_score = 9 / 10\<rparr>]),
      (''q2'', [\<lparr>index = 0, document = ''d3'', relevance_score = 1\<rparr>,
               \<lparr>index = 1, document = ''d1'', relevance_score = 9 / 10\<rparr>])]"

section \<open>Properties of \<^verbatim>\<open>prepare_context\<close>\<close>

lemma context_inner_fold:
  "context_inner top_k i ds st = fold add_doc (map document (take (nat (top_k - i)) ds)) st"
proof (induction ds arbitrary: i st)
  case Nil
  then show ?case by simp
next
  case (Cons d ds)
  show ?case
  proof (cases "i \<ge> top_k")
    case True
    then show ?thesis by simp
  next
    case False
    then have "nat (top_k - i) = Suc (nat (top_k - (i + 1)))" by simp
    with False Cons.IH [of "i + 1" "add_doc (document d) st"] show ?thesis by simp
  qed
qed

lemma context_outer_fold:
  "context_outer top_k rr st = fold add_doc (visited rr top_k) st"
  by (induction rr arbitrary: st) (auto simp: visited_def context_inner_fold)

lemma fold_add_doc:
  "fold add_doc ts st =
     \<lparr>all_docs = all_docs st @ label_from (chunk_counter st) (first_seen (seen_docs st) ts),
      seen_docs = seen_docs st \<union> set ts,
      chunk_counter = chunk_counter st + length (first_seen (seen_docs st) ts)\<rparr>"
  by (induction ts arbitrary: st) (auto simp: add_doc_def)

lemma context_blocks_eq:
  "context_blocks rr top_k = label_from 1 (first_seen {} (visited rr top_k))"
  by (simp add: context_blocks_def context_outer_fold fold_add_doc ctx_init_def)

lemma set_first_seen: "set (first_seen S xs) = set xs - S"
  by (induction xs arbitrary: S) auto

lemma distinct_first_seen: "distinct (first_seen S xs)"
  by (induction xs arbitrary: S) (auto simp: set_first_seen)


lemma length_label_from: "length (label_from n ts) = length ts"
  by (induction ts arbitrary: n) auto

lemma nth_label_from: "j < length ts \<Longrightarrow> label_from n ts ! j = chunk_label (n + j) (ts ! j)"
proof (induction ts arbitrary: n j)
  case Nil
  then show ?case by simp
next
  case (Cons t ts)
  then show ?case by (cases j) auto
qed

lemma first_seen_position:
  "t \<in> set xs \<Longrightarrow> t \<notin> S \<Longrightarrow>
     card (set (takeWhile (\<lambda>x. x \<noteq> t) xs) - S) < length (first_seen S xs) \<and>
     first_seen S xs ! card (set (takeWhile (\<lambda>x. x \<noteq> t) xs) - S) = t"
proof (induction xs arbitrary: S)
  case Nil
  then show ?case by simp
next
  case (Cons x xs)
  show ?case
  proof (cases "x = t")
    case True
    with Cons.prems show ?thesis by simp
  next
    case False
    with Cons.prems have txs: "t \<in> set xs" by simp
    show ?thesis
    proof (cases "x \<in> S")
      case True
      then have "set (takeWhile (\<lambda>x. x \<noteq> t) (x # xs)) - S = set (takeWhile (\<lambda>x. x \<noteq> t) xs) - S"
        using False by auto
      with True Cons.IH [OF txs Cons.prems(2)] show ?thesis by simp
    next
      case xS: False
      let ?tw = "takeWhile (\<lambda>x. x \<noteq> t) xs"
      have tS: "t \<notin> insert x S" using False Cons.prems(2) by auto
      have "set (takeWhile (\<lambda>x. x \<noteq> t) (x # xs)) - S = insert x (set ?tw - insert x S)"
        using False xS by auto
      then have "card (set (takeWhile (\<lambda>x. x \<noteq> t) (x # xs)) - S) = Suc (card (set ?tw - insert x S))"
        by simp
      with xS Cons.IH [OF txs tS] show ?thesis by simp
    qed
  qed
qed


lemma digit_char_digit: "d < 10 \<Longrightarrow> digit_char d \<in> set ''0123456789''"
  unfolding digit_char_def by (rule nth_mem) simp

lemma str_nat_digits: "set (str_nat n) \<subseteq> set ''0123456789''"
proof (induction n rule: str_nat.induct)
  case (1 n)
  show ?case
  proof (cases "n < 10")
    case True
    then show ?thesis using digit_char_digit [of n] by (subst str_nat.simps) simp
  next
    case False
    have "digit_char (n mod 10) \<in> set ''0123456789''" by (rule digit_char_digit) simp
    with False "1.IH" show ?thesis by (subst str_nat.simps) simp
  qed
qed

lemma append_sep_inject:
  "s \<notin> set a \<Longrightarrow> s \<notin> set b \<Longrightarrow> a @ s # r = b @ s # r' \<Longrightarrow> a = b \<and> r = r'"
proof (induction a arbitrary: b)
  case Nil
  then show ?case by (cases b) auto
next
  case (Cons x a)
  then show ?case by (cases b) auto
qed

lemma chunk_label_inject:
  assumes "chunk_label X t = chunk_label Y t'"
  shows "t = t'"
proof -
  have a: "CHR '']'' \<notin> set (str_nat X)" "CHR '']'' \<notin> set (str_nat Y)"
    using str_nat_digits [of X] str_nat_digits [of Y] by auto
  from assms have "str_nat X @ CHR '']'' # (CHR '':'' # CHR 0x0A # t) =
                   str_nat Y @ CHR '']'' # (CHR '':'' # CHR 0x0A # t')"
    by (simp add: chunk_label_def)
  from append_sep_inject [OF a this] show ?thesis by simp
qed

lemma block_of_text:
  assumes "t \<in> set (visited rr top_k)"
  shows "card (set (takeWhile (\<lambda>x. x \<noteq> t) (visited rr top_k))) < length (context_blocks rr top_k)"
    and "context_blocks rr top_k ! card (set (takeWhile (\<lambda>x. x \<noteq> t) (visited rr top_k))) =
           chunk_label (card (set (takeWhile (\<lambda>x. x \<noteq> t) (visited rr top_k))) + 1) t"
    and "i < length (context_blocks rr top_k) \<Longrightarrow> context_blocks rr top_k ! i = chunk_label X t \<Longrightarrow>
           i = card (set (takeWhile (\<lambda>x. x \<noteq> t) (visited rr top_k)))"
proof -
  let ?fs = "first_seen {} (visited rr top_k)"
  let ?j = "card (set (takeWhile (\<lambda>x. x \<noteq> t) (visited rr top_k)))"
  from first_seen_position [OF assms, of "{}"] have j: "?j < length ?fs" "?fs ! ?j = t" by simp_all
  show "?j < length (context_blocks rr top_k)"
    using j by (simp add: context_blocks_eq length_label_from)
  show "context_blocks rr top_k ! ?j = chunk_label (?j + 1) t"
    using j by (simp add: context_blocks_eq nth_label_from)
  show "i = ?j" if i: "i < length (context_blocks rr top_k)"
    and eq: "context_blocks rr top_k ! i = chunk_label X t"
  proof -
    from i have il: "i < length ?fs" by (simp add: context_blocks_eq length_label_from)
    with eq have "chunk_label (1 + i) (?fs ! i) = chunk_label X t"
      by (simp add: context_blocks_eq nth_label_from)
    then have "?fs ! i = t" by (rule chunk_label_inject)
    with j have "?fs ! i = ?fs ! ?j" by simp
    with nth_eq_iff_index_eq [OF distinct_first_seen il j(1)] show ?thesis by blast
  qed
qed

lemma in_visited:
  "(q, rs) \<in> set rr \<Longrightarrow> t \<in> document ` set (take (nat top_k) rs) \<Longrightarrow> t \<in> set (visited rr top_k)"
  by (force simp: visited_def)

text \<open>
  C4. \<^verbatim>\<open>prepare_context\<close> deduplicates fragments by exact text equality across all subquery
  keys. When a text \<open>t\<close> occurs within the first \<open>top_k\<close> entries under two different keys,
  the blocks joined into the result hold exactly one block \<^verbatim>\<open>[Chunk X]\<close> for \<open>t\<close>: it is
  the block at position \<open>j\<close>, where \<open>j\<close> is the number of distinct texts visited before the
  first occurrence of \<open>t\<close> in mapping iteration order, its label is \<open>X = j + 1\<close>, and no other
  block is a labelled copy of \<open>t\<close>, whatever its label.
\<close>

theorem prepare_context_dedup:
  assumes "(q1, rs1) \<in> set rr" and "(q2, rs2) \<in> set rr" and "q1 \<noteq> q2"
    and "t \<in> document ` set (take (nat top_k) rs1)"
    and "t \<in> document ` set (take (nat top_k) rs2)"
  shows "prepare_context rr top_k = str_join context_separator (context_blocks rr top_k) \<and>
         (\<exists>j < length (context_blocks rr top_k).
            j = card (set (takeWhile (\<lambda>x. x \<noteq> t) (visited rr top_k))) \<and>
            context_blocks rr top_k ! j = chunk_label (j + 1) t \<and>
            (\<forall>i < length (context_blocks rr top_k). \<forall>X.
               context_blocks rr top_k ! i = chunk_label X t \<longrightarrow> i = j))"
proof -
  from assms(1,4) have "t \<in> set (visited rr top_k)" by (rule in_visited)
  from block_of_text [OF this] show ?thesis
    unfolding prepare_context_def by blast
qed





lemma visited_texts:
  "visited rr top_k = concat (map (take (nat top_k)) (map (\<lambda>(query, results). map document results) rr))"
  by (induction rr) (auto simp: visited_def take_map)

text \<open>
  C10. The string returned by \<^verbatim>\<open>prepare_context\<close> depends only on the per-query sequences
  of \<^verbatim>\<open>document\<close> texts in mapping iteration order: two inputs that agree on them return the
  same string, whatever their \<^verbatim>\<open>relevance_score\<close> and \<^verbatim>\<open>index\<close> fields (and keys) are.
  In particular the entries are never put in another order by score.
\<close>

theorem prepare_context_texts_only:
  assumes "map (\<lambda>(query, results). map document results) rr1 =
           map (\<lambda>(query, results). map document results) rr2"
  shows "prepare_context rr1 top_k = prepare_context rr2 top_k"
  using assms by (simp add: prepare_context_def context_blocks_eq visited_texts)


text \<open>The text \<^verbatim>\<open>d1\<close> is first under \<^verbatim>\<open>q1\<close> and second under \<^verbatim>\<open>q2\<close>: one block, labelled 1.\<close>

theorem prepare_context_dedup_witness:
  "(''q1'', [\<lparr>index = 0, document = ''d1'', relevance_score = 1\<rparr>,
            \<lparr>index = 1, document = ''d2'', relevance_score = 9 / 10\<rparr>])
      \<in> set shared_fragment_results \<and>
   (''q2'', [\<lparr>index = 0, document = ''d3'', relevance_score = 1\<rparr>,
            \<lparr>index = 1, document = ''d1'', relevance_score = 9 / 10\<rparr>])
      \<in> set shared_fragment_results \<and>
   ''q1'' \<noteq> ''q2'' \<and>
   (\<exists>j < length (context_blocks shared_fragment_results 2).
      j = 0 \<and>
      context_blocks shared_fragment_results 2 ! j = chunk_label (j + 1) ''d1'' \<and>
      (\<forall>i < length (context_blocks shared_fragment_results 2). \<forall>X.
         context_blocks shared_fragment_results 2 ! i = chunk_label X ''d1'' \<longrightarrow> i = j))"
proof -
  let ?rs1 = "[\<lparr>index = 0, document = ''d1'', relevance_score = 1\<rparr>,
               \<lparr>index = 1, document = ''d2'', relevance_score = 9 / 10\<rparr>]"
  let ?rs2 = "[\<lparr>index = 0, document = ''d3'', relevance_score = 1\<rparr>,
               \<lparr>index = 1, document = ''d1'', relevance_score = 9 / 10\<rparr>]"
  have h1: "(''q1'', ?rs1) \<in> set shared_fragment_results"
    by (simp add: shared_fragment_results_def)
  have h2: "(''q2'', ?rs2) \<in> set shared_fragment_results"
    by (simp add: shared_fragment_results_def)
  have h3: "''q1'' \<noteq> ''q2''" by simp
  have h4: "''d1'' \<in> document ` set (take (nat 2) ?rs1)" by simp
  have h5: "''d1'' \<in> document ` set (take (nat 2) ?rs2)" by simp
  have v: "card (set (takeWhile (\<lambda>x. x \<noteq> ''d1'') (visited shared_fragment_results 2))) = 0"
    by (simp add: visited_def shared_fragment_results_def)
  from prepare_context_dedup [OF h1 h2 h3 h4 h5] h1 h2 h3 show ?thesis
    unfolding v by blast
qed

lemma prepare_context_shared_fragment:
  "context_blocks shared_fragment_results 2 =
     [chunk_label 1 ''d1'', chunk_label 2 ''d2'', chunk_label 3 ''d3'']"
  by (simp add: context_blocks_def ctx_init_def add_doc_def shared_fragment_results_def
      numeral_2_eq_2 numeral_3_eq_3)



text \<open>Same texts in the same order, other scores (here ascending) and indices: same string.\<close>

theorem prepare_context_texts_only_witness:
  "map (\<lambda>(query, results). map document results)
       [(''q1'', [\<lparr>index = 0, document = ''A'', relevance_score = 1\<rparr>,
                 \<lparr>index = 1, document = ''B'', relevance_score = 9 / 10\<rparr>])] =
   map (\<lambda>(query, results). map document results)
       [(''other'', [\<lparr>index = 7, document = ''A'', relevance_score = 1 / 5\<rparr>,
                    \<lparr>index = 3, document = ''B'', relevance_score = 4 / 5\<rparr>])] \<and>
   prepare_context [(''q1'', [\<lparr>index = 0, document = ''A'', relevance_score = 1\<rparr>,
                             \<lparr>index = 1, document = ''B'', relevance_score = 9 / 10\<rparr>])] 5 =
   prepare_context [(''other'', [\<lparr>index = 7, document = ''A'', relevance_score = 1 / 5\<rparr>,
                                \<lparr>index = 3, document = ''B'', relevance_score = 4 / 5\<rparr>])] 5"
proof -
  have h: "map (\<lambda>(query, results). map document results)
       [(''q1'', [\<lparr>index = 0, document = ''A'', relevance_score = 1\<rparr>,
                 \<lparr>index = 1, document = ''B'', relevance_score = 9 / 10\<rparr>])] =
   map (\<lambda>(query, results). map document results)
       [(''other'', [\<lparr>index = 7, document = ''A'', relevance_score = 1 / 5\<rparr>,
                    \<lparr>index = 3, document = ''B'', relevance_score = 4 / 5\<rparr>])]" by simp
  from prepare_context_texts_only [OF h] h show ?thesis by blast
qed

text \<open>Scenario 6 of the specification.\<close>

lemma prepare_context_scenario:
  "prepare_context [(''X'', [\<lparr>index = 0, document = ''A'', relevance_score = 1\<rparr>,
                            \<lparr>index = 1, document = ''B'', relevance_score = 9 / 10\<rparr>])] 2 =
   ''[Chunk 1]:'' @ [CHR 0x0A] @ ''A'' @ [CHR 0x0A, CHR 0x0A] @ ''---'' @ [CHR 0x0A, CHR 0x0A] @
   ''[Chunk 2]:'' @ [CHR 0x0A] @ ''B''"
  by (simp add: prepare_context_def context_blocks_def ctx_init_def add_doc_def chunk_label_def
      context_separator_def str_nat.simps digit_char_def)


section \<open>Properties of \<^verbatim>\<open>VoyageReranker.rerank\<close>\<close>

lemma length_original_order: "length (original_order documents) = length documents"
  by (simp add: original_order_def)


lemma rerank_unconfigured: "rerank None query documents top_k = original_order documents"
  by (simp add: rerank_def)


lemma rerank_conversion_raises:
  "service query documents top_k = Inr results \<Longrightarrow> convert_results documents results = Inl e \<Longrightarrow>
     rerank (Some service) query documents top_k = original_order documents"
  by (simp add: rerank_def)



lemma rerank_fallback_length:
  "length (rerank None query documents top_k) = length documents"
  by (simp add: rerank_unconfigured length_original_order)

text \<open>
  C6. The claim wants at most \<open>top_k\<close> entries on the fallback path. The fallback never reads
  \<^verbatim>\<open>top_k\<close>: with three documents and \<open>top_k = 1\<close> it returns three entries, where the
  service path hands \<^verbatim>\<open>top_k\<close> to the service.
\<close>

theorem rerank_fallback_ignores_top_k:
  "rerank None ''q'' [''a'', ''b'', ''c''] (Some 1) =
     [\<lparr>index = 0, document = ''a'', relevance_score = 1\<rparr>,
      \<lparr>index = 1, document = ''b'', relevance_score = 9 / 10\<rparr>,
      \<lparr>index = 2, document = ''c'', relevance_score = 4 / 5\<rparr>]"
  by (simp add: rerank_def original_order_def enumerate_eq_zip upt_rec)

section \<open>Properties of \<^verbatim>\<open>LLMUtils.generate_subqueries\<close>\<close>

lemma length_slice_to: "0 \<le> n \<Longrightarrow> int (length (slice_to xs n)) \<le> n"
  by (simp add: slice_to_def)

lemma generate_subqueries_unconfigured: "generate_subqueries None rationales n = Inr [rationales]"
  by (simp add: generate_subqueries_def)

lemma generate_subqueries_at_most:
  assumes "generate_subqueries client rationales n = Inr subqueries" and "1 \<le> n"
  shows "int (length subqueries) \<le> n"
proof (cases client)
  case None
  with assms show ?thesis by (auto simp: generate_subqueries_def)
next
  case (Some chat)
  from assms(2) have n: "0 \<le> n" by simp
  from assms(1) Some show ?thesis
    using length_slice_to [OF n]
    by (auto simp: generate_subqueries_def Let_def split: sum.splits if_splits)
qed

text \<open>
  C1. The claim wants between 1 and \<open>n\<close> pairwise different strings. The first tier drops a
  repeated entry and the retry is taken when the first tier is empty, but the list built from
  the retry is returned unchecked: a service that answers each request with the two lines
  \<^verbatim>\<open>Query: a\<close> yields \<^verbatim>\<open>["a", "a"]\<close> for \<open>n = 3\<close>, and one that answers with an empty
  completion yields the empty list.
\<close>

theorem generate_subqueries_retry_unchecked:
  "generate_subqueries (Some repeating_chat) ''r'' 3 = Inr [''a'', ''a''] \<and>
   generate_subqueries (Some silent_chat) ''r'' 3 = Inr []"
  by code_simp

section \<open>Properties of the first-tier parse\<close>

lemma parse_lines_eq:
  "parse_lines ls subqueries =
     subqueries @ first_seen (set subqueries)
       (filter (\<lambda>q. q \<noteq> []) (map extract_query (filter looks_like_item (map strip ls))))"
  by (induction ls arbitrary: subqueries) (auto simp: Let_def)

lemma distinct_parse_subqueries: "distinct (parse_subqueries subqueries_text)"
  by (simp add: parse_subqueries_def parse_lines_eq distinct_first_seen)










lemma parse_subqueries_keeps_marker:
  "parse_subqueries ''- plain'' = [''- plain'']"
  by code_simp

section \<open>Properties of \<^verbatim>\<open>initialize\<close>\<close>

text \<open>
  C9, amended. \<^verbatim>\<open>initialize\<close> with \<^verbatim>\<open>reinitialize=True\<close>, while a persisted index exists,
  always deletes the persisted index and never calls \<^verbatim>\<open>FAISS.load_local\<close>, whatever the
  existing index is; it runs the ingestion, and \<^verbatim>\<open>create_index\<close> and \<^verbatim>\<open>save_index\<close> follow
  exactly when the ingestion returns at least one chunk. With no chunk, no index is built or
  persisted; when the ingestion raises, so does \<^verbatim>\<open>initialize\<close>.
\<close>

theorem initialize_reinitialize:
  assumes "fs_index vs \<noteq> None"
  shows "initialize env vs documents_dir True file_name =
     (case ingest env (case documents_dir of
                         None \<Rightarrow> DOCUMENTS_DIR env
                       | Some d \<Rightarrow> if d \<noteq> [] then d else DOCUMENTS_DIR env) file_name of
        (c, Inl e) \<Rightarrow> Inl e
      | (c, Inr documents) \<Rightarrow>
          Inr (if documents \<noteq> [] then
                 vs\<lparr>vs_index := Some (from_documents env documents),
                    fs_index := Some (Loadable (from_documents env documents)),
                    calls := calls vs @ [Rmtree, c, From_documents documents, Save_local]\<rparr>
               else vs\<lparr>fs_index := None, calls := calls vs @ [Rmtree, c]\<rparr>))"
  using assms
  by (simp add: initialize_def rmtree_def load_index_def save_index_def create_index_def Let_def
      split: prod.splits sum.splits)

theorem initialize_reinitialize_witness:
  "Some Corrupt \<noteq> None \<and>
   initialize one_chunk_corpus \<lparr>vs_index = None, fs_index = Some Corrupt, calls = []\<rparr>
       None True None =
     Inr \<lparr>vs_index = Some (first_k_index [\<lparr>page_content = ''A'', metadata_source = Some ''f.txt''\<rparr>]),
          fs_index = Some (Loadable
            (first_k_index [\<lparr>page_content = ''A'', metadata_source = Some ''f.txt''\<rparr>])),
          calls = [Rmtree, Process_directory ''documents'',
                   From_documents [\<lparr>page_content = ''A'', metadata_source = Some ''f.txt''\<rparr>],
                   Save_local]\<rparr>"
proof -
  have h: "fs_index \<lparr>vs_index = None, fs_index = Some Corrupt, calls = []\<rparr> \<noteq> None" by simp
  from initialize_reinitialize [OF h, of one_chunk_corpus None None]
  show ?thesis by (simp add: ingest_def one_chunk_corpus_def)
qed

text \<open>
  C9 as stated promises \<^verbatim>\<open>create_index\<close> and \<^verbatim>\<open>save_index\<close> on every such call. When the
  ingestion returns no chunk, the guard \<^verbatim>\<open>if documents:\<close> skips both: the old index is
  deleted, nothing is built and nothing is persisted.
\<close>

theorem initialize_reinitialize_counterexample:
  "initialize empty_corpus \<lparr>vs_index = None, fs_index = Some (Loadable two_chunk_index), calls = []\<rparr>
       None True None =
     Inr \<lparr>vs_index = None, fs_index = None, calls = [Rmtree, Process_directory ''documents'']\<rparr>"
  by (simp add: initialize_def rmtree_def load_index_def ingest_def empty_corpus_def)

lemma initialize_loads_valid_index:
  "initialize env \<lparr>vs_index = None, fs_index = Some (Loadable idx), calls = []\<rparr>
       documents_dir False file_name =
     Inr \<lparr>vs_index = Some idx, fs_index = Some (Loadable idx), calls = [Load_local]\<rparr>"
  by (simp add: initialize_def load_index_def)

section \<open>Properties of \<^verbatim>\<open>process_query\<close>\<close>


lemma search_unbuilt:
  "search None query k = Inl (ValueError ''No index to search. Create or load an index first.'')"
  by (simp add: search_def)

lemma search_for_multiple_queries_unbuilt:
  "search_for_multiple_queries None (query # queries) k results =
     Inl (ValueError ''No index to search. Create or load an index first.'')"
  by (simp add: search_def)






lemma process_query_no_credentials:
  "process_query
     \<lparr>vector_store = \<lparr>vs_index = Some two_chunk_index, fs_index = None, calls = []\<rparr>,
      llm_utils = None, reranker = None\<rparr> ''X'' = Inr no_key_response"
  by (simp add: process_query_def extract_rationales_def generate_subqueries_def search_def
      generate_response_def)

text \<open>
  C7, amended. Searching an unbuilt or unloaded index is a hard failure: \<^verbatim>\<open>VectorStore.search\<close>
  raises \<^verbatim>\<open>ValueError\<close>, \<^verbatim>\<open>search_for_multiple_queries\<close> raises it on its first query, and
  the rationale-driven \<^verbatim>\<open>process_query\<close> raises it whenever a subquery was generated (always
  so without the generation credential); the simple variant raises what its vector store's
  search raises. The reranker-only variant does not raise with zero processed documents: its
  \<^verbatim>\<open>process_query\<close> returns a fixed string.
\<close>

theorem programmer_errors:
  "search None query k = Inl (ValueError ''No index to search. Create or load an index first.'') \<and>
   search_for_multiple_queries None (query # queries) k results =
     Inl (ValueError ''No index to search. Create or load an index first.'') \<and>
   (vs_index (vector_store self) = None \<and>
    extract_rationales (llm_utils self) query = Inr rationales \<and>
    generate_subqueries (llm_utils self) rationales NUM_SUBQUERIES = Inr (subquery # subqueries) \<longrightarrow>
      process_query self query =
        Inl (ValueError ''No index to search. Create or load an index first.'')) \<and>
   (vs_index (vector_store self) = None \<and> llm_utils self = None \<longrightarrow>
      process_query self query =
        Inl (ValueError ''No index to search. Create or load an index first.'')) \<and>
   (vector_store_search query TOP_K = Inl e \<longrightarrow>
      simple_process_query vector_store_search client query = Inl e) \<and>
   reranker_process_query llm_generate_response top_k_reranked rerank_client [] query =
     Inr ''Error: No documents have been processed. Please initialize the pipeline.''"
  by (simp add: search_def process_query_def simple_process_query_def reranker_process_query_def
      extract_rationales_def generate_subqueries_def)

theorem programmer_errors_witness:
  "vs_index (vector_store
      \<lparr>vector_store = \<lparr>vs_index = None, fs_index = None, calls = []\<rparr>,
       llm_utils = None, reranker = None\<rparr>) = None \<and>
   process_query
      \<lparr>vector_store = \<lparr>vs_index = None, fs_index = None, calls = []\<rparr>,
       llm_utils = None, reranker = None\<rparr> ''X'' =
     Inl (ValueError ''No index to search. Create or load an index first.'') \<and>
   search None ''X'' TOP_K = Inl (ValueError ''No index to search. Create or load an index first.'') \<and>
   simple_process_query (search None) None ''X'' =
     Inl (ValueError ''No index to search. Create or load an index first.'')"
proof -
  let ?self = "\<lparr>vector_store = \<lparr>vs_index = None, fs_index = None, calls = []\<rparr>,
       llm_utils = None, reranker = None\<rparr>"
  have h: "vs_index (vector_store ?self) = None \<and> llm_utils ?self = None" by simp
  have s: "search None ''X'' TOP_K = Inl (ValueError ''No index to search. Create or load an index first.'')"
    by (simp add: search_def)
  from programmer_errors [of "''X''" TOP_K _ _ ?self _ _ _ "search None"
      "ValueError ''No index to search. Create or load an index first.''" None] h s
  show ?thesis by simp
qed

text \<open>
  C7 as stated has every variant raise. The reranker-only \<^verbatim>\<open>process_query\<close>, asked to answer
  with no processed document, returns a string as its normal result.
\<close>

theorem programmer_errors_counterexample:
  "reranker_process_query stub_generate_response 5 None [] ''X'' =
     Inr ''Error: No documents have been processed. Please initialize the pipeline.''"
  by (simp add: reranker_process_query_def)

text \<open>With a generation service whose completions hold no subquery, nothing is searched and
  the unbuilt index goes unnoticed.\<close>

lemma process_query_unbuilt_index_unnoticed:
  "process_query
     \<lparr>vector_store = \<lparr>vs_index = None, fs_index = None, calls = []\<rparr>,
      llm_utils = Some silent_chat, reranker = None\<rparr> ''X'' = Inr []"
  by code_simp

end
